theory Spec2Isabelle
  imports Main "HOL-Library.Sublist"
begin

section \<open>Policy query derivation\<close>

text \<open>
  The source builds the projection of the virtual dataset as follows.
  \<^verbatim>\<open>
  def get_policy_query(transformation_cols, sql_path, col_names):
      request_cols = [col for col in col_names if col not in transformation_cols]
      if len(request_cols) < 1:
          return ""
      requested_cols_string = request_cols[0]
      for col in request_cols[1:]:
          add_col = ", " + col
          requested_cols_string += add_col
      sql_vds = "select " + requested_cols_string + ' from "' + sql_path
      return sql_vds
  \<close>
  Column names and the path are strings, the two column arguments are lists of strings.
  The \<^verbatim>\<open>for\<close> loop over \<^verbatim>\<open>request_cols[1:]\<close> is the function \<open>add_cols\<close>, with the
  string built so far as its accumulator.
\<close>

fun add_cols :: "string \<Rightarrow> string list \<Rightarrow> string" where
  "add_cols requested_cols_string [] = requested_cols_string"
| "add_cols requested_cols_string (col # cols) =
     (let add_col = '', '' @ col
      in add_cols (requested_cols_string @ add_col) cols)"

definition get_policy_query :: "string list \<Rightarrow> string \<Rightarrow> string list \<Rightarrow> string" where
  "get_policy_query transformation_cols sql_path col_names =
     (let request_cols = [col \<leftarrow> col_names. col \<notin> set transformation_cols]
      in if length request_cols < 1 then ''''
         else let requested_cols_string = add_cols (hd request_cols) (tl request_cols)
              in ''select '' @ requested_cols_string @ '' from '' @ [CHR 0x22] @ sql_path)"

text \<open>
  The specification's vocabulary: the allowed columns are the table's columns without the
  protected ones, in the table's order, and the projection lists them separated by a comma
  and a blank.
\<close>

definition allowed_cols :: "string list \<Rightarrow> string list \<Rightarrow> string list" where
  "allowed_cols allCols protectedCols = filter (\<lambda>c. c \<notin> set protectedCols) allCols"

fun comma_joined :: "string list \<Rightarrow> string" where
  "comma_joined [] = ''''"
| "comma_joined [c] = c"
| "comma_joined (c # d # cs) = c @ '', '' @ comma_joined (d # cs)"

section \<open>Python values and exceptions\<close>

text \<open>
  The remaining functions handle values that come out of JSON and YAML documents, whose
  shape the source never checks. They are modelled as they are at run time: \<^verbatim>\<open>None\<close>,
  booleans, numbers, strings, lists and dictionaries. A dictionary is the list of its
  items in insertion order; its keys are strings, as they are in every JSON object and in
  the documents the configuration describes. The keys of a dictionary are distinct; on a
  list of items that repeats a key, a lookup takes the first item. Numbers are integers:
  the source only tests numbers for truth, where a float behaves like an integer.
\<close>

datatype pyval =
    PNone
  | PBool bool
  | PInt int
  | PStr string
  | PList "pyval list"
  | PDict "(string \<times> pyval) list"

text \<open>
  An exception is a value. \<open>LibraryError\<close> stands for whatever the operating system, the
  HTTP client or a decoder raises; the other constructors are raised by the interpreter
  or, for \<open>ValueError\<close>, by the source itself.
\<close>

datatype py_error =
    ValueError string
  | TypeError
  | KeyError
  | IndexError
  | AttributeError
  | UnboundLocalError
  | LibraryError string

text \<open>Sequencing: the first exception ends the computation.\<close>

definition on_ok :: "py_error + 'a \<Rightarrow> ('a \<Rightarrow> py_error + 'b) \<Rightarrow> py_error + 'b" where
  "on_ok r f = (case r of Inl e \<Rightarrow> Inl e | Inr x \<Rightarrow> f x)"

text \<open>Truth value testing, as \<^verbatim>\<open>if x\<close> and \<^verbatim>\<open>not x\<close> do it.\<close>

fun truthy :: "pyval \<Rightarrow> bool" where
  "truthy PNone = False"
| "truthy (PBool b) = b"
| "truthy (PInt i) = (i \<noteq> 0)"
| "truthy (PStr s) = (s \<noteq> [])"
| "truthy (PList xs) = (xs \<noteq> [])"
| "truthy (PDict kvs) = (kvs \<noteq> [])"

text \<open>
  \<^verbatim>\<open>k in x\<close> for a string \<open>k\<close>: a key of a dictionary, an element of a list, a substring
  of a string; \<^verbatim>\<open>None\<close>, booleans and numbers are not iterable.
\<close>

fun py_in :: "string \<Rightarrow> pyval \<Rightarrow> py_error + bool" where
  "py_in k (PDict kvs) = Inr (k \<in> fst ` set kvs)"
| "py_in k (PList xs) = Inr (PStr k \<in> set xs)"
| "py_in k (PStr s) = Inr (sublist k s)"
| "py_in k PNone = Inl TypeError"
| "py_in k (PBool b) = Inl TypeError"
| "py_in k (PInt i) = Inl TypeError"

text \<open>
  Indexing a sequence with an integer: a negative index counts from the end, an index out
  of range raises \<^verbatim>\<open>IndexError\<close>.
\<close>

definition seq_index :: "'a list \<Rightarrow> int \<Rightarrow> py_error + 'a" where
  "seq_index xs i =
     (if 0 \<le> i \<and> i < int (length xs) then Inr (xs ! nat i)
      else if i < 0 \<and> - int (length xs) \<le> i then Inr (xs ! nat (int (length xs) + i))
      else Inl IndexError)"

text \<open>
  \<^verbatim>\<open>x[k]\<close>. A dictionary is looked up by key: a string that is no key, and any other
  hashable value, raises \<^verbatim>\<open>KeyError\<close>, a list or a dictionary as key is unhashable. Lists
  and strings take integers (a boolean is an integer). Nothing else can be subscripted.
\<close>

fun getitem :: "pyval \<Rightarrow> pyval \<Rightarrow> py_error + pyval" where
  "getitem (PDict kvs) (PStr k) = (case map_of kvs k of None \<Rightarrow> Inl KeyError | Some v \<Rightarrow> Inr v)"
| "getitem (PDict kvs) (PList ys) = Inl TypeError"
| "getitem (PDict kvs) (PDict ys) = Inl TypeError"
| "getitem (PDict kvs) PNone = Inl KeyError"
| "getitem (PDict kvs) (PBool b) = Inl KeyError"
| "getitem (PDict kvs) (PInt i) = Inl KeyError"
| "getitem (PList xs) (PInt i) = seq_index xs i"
| "getitem (PList xs) (PBool b) = seq_index xs (if b then 1 else 0)"
| "getitem (PStr s) (PInt i) = on_ok (seq_index s i) (\<lambda>c. Inr (PStr [c]))"
| "getitem (PStr s) (PBool b) = on_ok (seq_index s (if b then 1 else 0)) (\<lambda>c. Inr (PStr [c]))"
| "getitem x k = Inl TypeError"

text \<open>\<^verbatim>\<open>x.get(k, default)\<close>: only a dictionary has the method.\<close>

fun dict_get :: "pyval \<Rightarrow> string \<Rightarrow> pyval \<Rightarrow> py_error + pyval" where
  "dict_get (PDict kvs) k dflt = Inr (case map_of kvs k of None \<Rightarrow> dflt | Some v \<Rightarrow> v)"
| "dict_get x k dflt = Inl AttributeError"

text \<open>
  \<^verbatim>\<open>x + y\<close>: concatenation of two strings or two lists, addition of numbers (a boolean
  counts as 0 or 1), \<^verbatim>\<open>TypeError\<close> otherwise.
\<close>

fun py_add :: "pyval \<Rightarrow> pyval \<Rightarrow> py_error + pyval" where
  "py_add (PStr a) (PStr b) = Inr (PStr (a @ b))"
| "py_add (PList a) (PList b) = Inr (PList (a @ b))"
| "py_add (PInt a) (PInt b) = Inr (PInt (a + b))"
| "py_add (PInt a) (PBool b) = Inr (PInt (a + (if b then 1 else 0)))"
| "py_add (PBool a) (PInt b) = Inr (PInt ((if a then 1 else 0) + b))"
| "py_add (PBool a) (PBool b) = Inr (PInt ((if a then 1 else 0) + (if b then 1 else 0)))"
| "py_add x y = Inl TypeError"

text \<open>
  \<^verbatim>\<open>for data in val\<close>: the elements of a list, the keys of a dictionary, the characters
  of a string; nothing else can be iterated.
\<close>

fun py_iter :: "pyval \<Rightarrow> py_error + pyval list" where
  "py_iter (PList xs) = Inr xs"
| "py_iter (PDict kvs) = Inr (map (\<lambda>(k, v). PStr k) kvs)"
| "py_iter (PStr s) = Inr (map (\<lambda>c. PStr [c]) s)"
| "py_iter x = Inl TypeError"

text \<open>\<^verbatim>\<open>s.split(sep)\<close> for a separator of one character.\<close>

fun split_on :: "char \<Rightarrow> string \<Rightarrow> string list" where
  "split_on sep [] = [[]]"
| "split_on sep (c # cs) =
     (if c = sep then [] # split_on sep cs
      else (case split_on sep cs of
              [] \<Rightarrow> [[c]]
            | seg # segs \<Rightarrow> (c # seg) # segs))"

section \<open>The world outside the program\<close>

text \<open>
  Files, the network, the clock and the decoders of the standard library are not part of
  the repository: they are parameters of the model. The state of the outside world has an
  arbitrary type \<open>'w\<close>; every operation on it returns the state it leaves behind, so that
  the same request may be answered differently at different times. Logging is left out,
  except where the source evaluates \<^verbatim>\<open>response.json()\<close> for a log record, which can raise.
\<close>

record response =
  status_code :: int
  json :: "py_error + pyval"

type_synonym bytes = string

record 'w env =
  open_read :: "pyval \<Rightarrow> 'w \<Rightarrow> (py_error + string) \<times> 'w"
  requests_post :: "pyval \<Rightarrow> pyval \<Rightarrow> 'w \<Rightarrow> (py_error + response) \<times> 'w"
  requests_get :: "pyval \<Rightarrow> (string \<times> pyval) list \<Rightarrow> 'w \<Rightarrow> (py_error + response) \<times> 'w"
  socket_connect :: "string \<Rightarrow> int \<Rightarrow> 'w \<Rightarrow> (py_error + unit) \<times> 'w"
  time_sleep :: "int \<Rightarrow> 'w \<Rightarrow> 'w"
  b64decode :: "pyval \<Rightarrow> py_error + bytes"
  decode_utf8 :: "bytes \<Rightarrow> py_error + string"
  json_loads :: "string \<Rightarrow> py_error + pyval"
  yaml_safe_load :: "string \<Rightarrow> py_error + pyval"

text \<open>An operation that raised ends the run: its exception is the result.\<close>

definition io :: "(py_error + 'a) \<times> 'w \<Rightarrow> py_error + ('a \<times> 'w)" where
  "io r = (case r of (Inl e, w) \<Rightarrow> Inl e | (Inr x, w) \<Rightarrow> Inr (x, w))"

section \<open>Secret resolver\<close>

text \<open>
  \<^verbatim>\<open>
  def get_jwt_from_file(file_name):
      with open(file_name) as f:
          return f.read()
  \<close>
\<close>

definition get_jwt_from_file :: "'w env \<Rightarrow> pyval \<Rightarrow> 'w \<Rightarrow> py_error + (string \<times> 'w)" where
  "get_jwt_from_file env file_name w = io (open_read env file_name w)"

text \<open>
  \<^verbatim>\<open>
  def vault_jwt_auth(jwt, vault_address, vault_path, role, datasetID):
      full_auth_path = vault_address + vault_path
      json = {"jwt": jwt, "role": role}
      response = requests.post(full_auth_path, json=json)
      if response.status_code == 200:
          return response.json()
      logger.error("vault authentication failed",
          extra={Error: str(response.status_code) + ': ' + str(response.json()), ...})
      return None
  \<close>
  The log record of the failure branch evaluates \<^verbatim>\<open>response.json()\<close>, which raises when
  the body is not JSON.
\<close>

definition vault_jwt_auth ::
  "'w env \<Rightarrow> string \<Rightarrow> pyval \<Rightarrow> pyval \<Rightarrow> pyval \<Rightarrow> pyval \<Rightarrow> 'w \<Rightarrow> py_error + (pyval \<times> 'w)" where
  "vault_jwt_auth env jwt vault_address vault_path role datasetID w =
     on_ok (py_add vault_address vault_path) (\<lambda>full_auth_path.
     let body = PDict [(''jwt'', PStr jwt), (''role'', role)] in
     on_ok (io (requests_post env full_auth_path body w)) (\<lambda>(response, w1).
     if status_code response = 200
     then on_ok (json response) (\<lambda>parsed. Inr (parsed, w1))
     else on_ok (json response) (\<lambda>logged. Inr (PNone, w1))))"

text \<open>
  \<^verbatim>\<open>
  def get_raw_secret_from_vault(jwt, secret_path, vault_address, vault_path, role, datasetID):
      vault_auth_response = vault_jwt_auth(jwt, vault_address, vault_path, role, datasetID)
      if vault_auth_response is None:
          return None
      if not "auth" in vault_auth_response or not "client_token" in vault_auth_response["auth"]:
          return None
      client_token = vault_auth_response["auth"]["client_token"]
      secret_full_path = vault_address + secret_path
      response = requests.get(secret_full_path, headers={"X-Vault-Token" : client_token})
      if response.status_code == 200:
          response_json = response.json()
          if 'data' in response_json:
              return response_json['data']
          else:
              logger.error("Malformed secret response. Expected the 'data' field in JSON", ...)
      else:
          logger.error("Error reading credentials from vault",
              extra={Error: str(response.status_code) + ': ' + str(response.json()), ...})
      return None
  \<close>
\<close>

definition get_raw_secret_from_vault ::
  "'w env \<Rightarrow> string \<Rightarrow> pyval \<Rightarrow> pyval \<Rightarrow> pyval \<Rightarrow> pyval \<Rightarrow> pyval \<Rightarrow> 'w
     \<Rightarrow> py_error + (pyval \<times> 'w)" where
  "get_raw_secret_from_vault env jwt secret_path vault_address vault_path role datasetID w =
     on_ok (vault_jwt_auth env jwt vault_address vault_path role datasetID w)
       (\<lambda>(vault_auth_response, w1).
     if vault_auth_response = PNone then Inr (PNone, w1)
     else
     on_ok (py_in ''auth'' vault_auth_response) (\<lambda>has_auth.
     if \<not> has_auth then Inr (PNone, w1)
     else
     on_ok (getitem vault_auth_response (PStr ''auth'')) (\<lambda>auth.
     on_ok (py_in ''client_token'' auth) (\<lambda>has_token.
     if \<not> has_token then Inr (PNone, w1)
     else
     on_ok (getitem vault_auth_response (PStr ''auth'')) (\<lambda>auth'.
     on_ok (getitem auth' (PStr ''client_token'')) (\<lambda>client_token.
     on_ok (py_add vault_address secret_path) (\<lambda>secret_full_path.
     on_ok (io (requests_get env secret_full_path [(''X-Vault-Token'', client_token)] w1))
       (\<lambda>(response, w2).
     if status_code response = 200
     then on_ok (json response) (\<lambda>response_json.
          on_ok (py_in ''data'' response_json) (\<lambda>has_data.
          if has_data
          then on_ok (getitem response_json (PStr ''data'')) (\<lambda>data. Inr (data, w2))
          else Inr (PNone, w2)))
     else on_ok (json response) (\<lambda>logged. Inr (PNone, w2))))))))))"

text \<open>
  \<^verbatim>\<open>
  def get_credentials_from_vault(vault_credentials, data_set_id):
      jwt_file_path = vault_credentials.get('jwt_file_path',
                          '/var/run/secrets/kubernetes.io/serviceaccount/token')
      jwt = get_jwt_from_file(jwt_file_path)
      vault_address = vault_credentials.get('address', 'https://localhost:8200')
      secret_path = vault_credentials.get('secretPath', '/v1/secret/data/cred')
      vault_auth = vault_credentials.get('authPath', '/v1/auth/kubernetes/login')
      role = vault_credentials.get('role', 'demo')
      credentials = get_raw_secret_from_vault(jwt, secret_path, vault_address, vault_auth,
                                              role, data_set_id)
      if not credentials:
          raise ValueError("Vault credentials are missing")
      if 'access_key' in credentials and 'secret_key' in credentials:
          if credentials['access_key'] and credentials['secret_key']:
              return credentials['access_key'], credentials['secret_key']
          if not credentials['access_key']:
              logger.error("'access_key' must be non-empty", ...)
          if not credentials['secret_key']:
              logger.error("'secret_key' must be non-empty", ...)
      logger.error("Expected both 'access_key' and 'secret_key' fields in vault secret", ...)
      raise ValueError("Vault credentials are missing")
  \<close>
\<close>

definition missing_credentials :: py_error where
  "missing_credentials = ValueError ''Vault credentials are missing''"

definition get_credentials_from_vault ::
  "'w env \<Rightarrow> pyval \<Rightarrow> pyval \<Rightarrow> 'w \<Rightarrow> py_error + ((pyval \<times> pyval) \<times> 'w)" where
  "get_credentials_from_vault env vault_credentials data_set_id w =
     on_ok (dict_get vault_credentials ''jwt_file_path''
              (PStr ''/var/run/secrets/kubernetes.io/serviceaccount/token'')) (\<lambda>jwt_file_path.
     on_ok (get_jwt_from_file env jwt_file_path w) (\<lambda>(jwt, w1).
     on_ok (dict_get vault_credentials ''address'' (PStr ''https://localhost:8200''))
       (\<lambda>vault_address.
     on_ok (dict_get vault_credentials ''secretPath'' (PStr ''/v1/secret/data/cred''))
       (\<lambda>secret_path.
     on_ok (dict_get vault_credentials ''authPath'' (PStr ''/v1/auth/kubernetes/login''))
       (\<lambda>vault_auth.
     on_ok (dict_get vault_credentials ''role'' (PStr ''demo'')) (\<lambda>role.
     on_ok (get_raw_secret_from_vault env jwt secret_path vault_address vault_auth role
              data_set_id w1) (\<lambda>(credentials, w2).
     if \<not> truthy credentials then Inl missing_credentials
     else
     on_ok (py_in ''access_key'' credentials) (\<lambda>has_access.
     on_ok (if has_access then py_in ''secret_key'' credentials else Inr False) (\<lambda>has_both.
     if has_both
     then
       on_ok (getitem credentials (PStr ''access_key'')) (\<lambda>access_key.
       on_ok (if truthy access_key then getitem credentials (PStr ''secret_key'')
              else Inr access_key) (\<lambda>both_keys.
       if truthy both_keys
       then on_ok (getitem credentials (PStr ''access_key'')) (\<lambda>access_key'.
            on_ok (getitem credentials (PStr ''secret_key'')) (\<lambda>secret_key'.
            Inr ((access_key', secret_key'), w2)))
       else on_ok (getitem credentials (PStr ''access_key'')) (\<lambda>checked_access.
            on_ok (getitem credentials (PStr ''secret_key'')) (\<lambda>checked_secret.
            Inl missing_credentials))))
     else Inl missing_credentials)))))))))"

section \<open>Config loader\<close>

text \<open>
  \<^verbatim>\<open>
  data_dict = {}

  def get_details_from_conf():
      with open("/etc/conf/conf.yaml", 'r') as stream:
          content = yaml.safe_load(stream)
          for key, val in content.items():
              if "data" in key:
                  for data in val:
                      dataset_id = data["name"]
                      name = dataset_id.split("/")[1]
                      endpoint_url = data["connection"]["s3"]["endpoint_url"]
                      vault_credentials = data["connection"]["s3"]["vault_credentials"]
                      creds = get_credentials_from_vault(vault_credentials, dataset_id)
                      transformations = base64.b64decode(data["transformations"])
                      transformations_json = json.loads(transformations.decode('utf-8'))
                      transformation = transformations_json[0]['name']
                      transformation_cols = transformations_json[0][transformation]["columns"]
                      data_dict[name] = {'format': data["format"], 'endpoint_url': endpoint_url,
                        'path': data["path"], 'transformation': transformation,
                        'transformation_cols': transformation_cols, 'creds': creds}
      return data_dict[name]
  \<close>
  The dictionary stored for an entry has six fixed keys: it is a record. The module's
  dictionary \<^verbatim>\<open>data_dict\<close> is passed in and returned; the local variable \<^verbatim>\<open>name\<close> is
  \<open>None\<close> as long as no assignment has bound it.
\<close>

record descriptor =
  format :: pyval
  endpoint_url :: pyval
  path :: pyval
  transformation :: pyval
  transformation_cols :: pyval
  creds :: "pyval \<times> pyval"

text \<open>\<^verbatim>\<open>x.split(sep)\<close> and \<^verbatim>\<open>x.items()\<close>: methods of strings and of dictionaries only.\<close>

fun py_split :: "pyval \<Rightarrow> char \<Rightarrow> py_error + string list" where
  "py_split (PStr s) sep = Inr (split_on sep s)"
| "py_split x sep = Inl AttributeError"

fun py_items :: "pyval \<Rightarrow> py_error + (string \<times> pyval) list" where
  "py_items (PDict kvs) = Inr kvs"
| "py_items x = Inl AttributeError"

text \<open>\<^verbatim>\<open>d[k] = v\<close>: a key already there keeps its place, a new key goes last.\<close>

fun dict_set :: "string \<Rightarrow> 'v \<Rightarrow> (string \<times> 'v) list \<Rightarrow> (string \<times> 'v) list" where
  "dict_set k v [] = [(k, v)]"
| "dict_set k v ((k', v') # kvs) =
     (if k' = k then (k, v) # kvs else (k', v') # dict_set k v kvs)"

text \<open>The body of the inner loop: the name and the descriptor of one entry.\<close>

definition conf_entry ::
  "'w env \<Rightarrow> pyval \<Rightarrow> 'w \<Rightarrow> py_error + ((string \<times> descriptor) \<times> 'w)" where
  "conf_entry env data w =
     on_ok (getitem data (PStr ''name'')) (\<lambda>dataset_id.
     on_ok (py_split dataset_id CHR ''/'') (\<lambda>segments.
     on_ok (seq_index segments 1) (\<lambda>name.
     on_ok (getitem data (PStr ''connection'')) (\<lambda>connection.
     on_ok (getitem connection (PStr ''s3'')) (\<lambda>s3.
     on_ok (getitem s3 (PStr ''endpoint_url'')) (\<lambda>endpoint_url.
     on_ok (getitem data (PStr ''connection'')) (\<lambda>connection'.
     on_ok (getitem connection' (PStr ''s3'')) (\<lambda>s3'.
     on_ok (getitem s3' (PStr ''vault_credentials'')) (\<lambda>vault_credentials.
     on_ok (get_credentials_from_vault env vault_credentials dataset_id w) (\<lambda>(creds, w1).
     on_ok (getitem data (PStr ''transformations'')) (\<lambda>encoded.
     on_ok (b64decode env encoded) (\<lambda>transformations.
     on_ok (decode_utf8 env transformations) (\<lambda>decoded.
     on_ok (json_loads env decoded) (\<lambda>transformations_json.
     on_ok (getitem transformations_json (PInt 0)) (\<lambda>first.
     on_ok (getitem first (PStr ''name'')) (\<lambda>transformation.
     on_ok (getitem transformations_json (PInt 0)) (\<lambda>first'.
     on_ok (getitem first' transformation) (\<lambda>named.
     on_ok (getitem named (PStr ''columns'')) (\<lambda>transformation_cols.
     on_ok (getitem data (PStr ''format'')) (\<lambda>data_format.
     on_ok (getitem data (PStr ''path'')) (\<lambda>data_path.
     Inr ((name,
           \<lparr>format = data_format, endpoint_url = endpoint_url, path = data_path,
            transformation = transformation, transformation_cols = transformation_cols,
            creds = creds\<rparr>), w1))))))))))))))))))))))"

text \<open>
  The state of the two loops: the variable \<^verbatim>\<open>name\<close>, the dictionary \<^verbatim>\<open>data_dict\<close> and
  the world.
\<close>

type_synonym 'w conf_state = "string option \<times> (string \<times> descriptor) list \<times> 'w"

fun entries_loop :: "'w env \<Rightarrow> pyval list \<Rightarrow> 'w conf_state \<Rightarrow> py_error + 'w conf_state" where
  "entries_loop env [] st = Inr st"
| "entries_loop env (data # rest) (name, data_dict, w) =
     (case conf_entry env data w of
        Inl e \<Rightarrow> Inl e
      | Inr ((name', d), w1) \<Rightarrow>
          entries_loop env rest (Some name', dict_set name' d data_dict, w1))"

fun items_loop ::
  "'w env \<Rightarrow> (string \<times> pyval) list \<Rightarrow> 'w conf_state \<Rightarrow> py_error + 'w conf_state" where
  "items_loop env [] st = Inr st"
| "items_loop env ((key, val) # rest) st =
     (if sublist ''data'' key
      then (case py_iter val of
              Inl e \<Rightarrow> Inl e
            | Inr entries \<Rightarrow>
                (case entries_loop env entries st of
                   Inl e \<Rightarrow> Inl e
                 | Inr st1 \<Rightarrow> items_loop env rest st1))
      else items_loop env rest st)"

definition get_details_from_conf ::
  "'w env \<Rightarrow> (string \<times> descriptor) list \<Rightarrow> 'w
     \<Rightarrow> py_error + (descriptor \<times> (string \<times> descriptor) list \<times> 'w)" where
  "get_details_from_conf env data_dict w =
     on_ok (io (open_read env (PStr ''/etc/conf/conf.yaml'') w)) (\<lambda>(stream, w1).
     on_ok (yaml_safe_load env stream) (\<lambda>content.
     on_ok (py_items content) (\<lambda>items.
     on_ok (items_loop env items (None, data_dict, w1)) (\<lambda>(name, data_dict', w2).
     case name of
       None \<Rightarrow> Inl UnboundLocalError
     | Some n \<Rightarrow>
         (case map_of data_dict' n of
            None \<Rightarrow> Inl KeyError
          | Some d \<Rightarrow> Inr (d, data_dict', w2))))))"

text \<open>
  The entries of a parsed configuration, in the order in which the two loops reach them:
  the elements of the values of all keys that contain \<^verbatim>\<open>data\<close>.
\<close>

definition conf_entries :: "(string \<times> pyval) list \<Rightarrow> pyval list" where
  "conf_entries items =
     concat (map (\<lambda>(key, val). case py_iter val of Inl e \<Rightarrow> [] | Inr entries \<Rightarrow> entries)
               (filter (\<lambda>(key, val). sublist ''data'' key) items))"

section \<open>Readiness waiter\<close>

text \<open>
  \<^verbatim>\<open>
  def wait_dremio(dremio_host, dremio_port):
      a_socket = socket.socket()
      count = 0
      while count < 30:
          logger.info("wait dremio")
          try:
              a_socket.connect((dremio_host, dremio_port))
          except:
              logger.info("sleeping, waiting dremio")
              sleep(10)
              count += 1
              continue
          break
  \<close>
  The bare \<^verbatim>\<open>except\<close> catches whatever the connect raises, and nothing else in the loop
  raises: the function has no exceptional result. (Creating the socket object opens no
  connection and is not modelled.) To count what it does, the model also returns the
  connects and sleeps it has made, in order.
\<close>

datatype event = Connect string int | Sleep int

function wait_loop ::
  "'w env \<Rightarrow> string \<Rightarrow> int \<Rightarrow> int \<Rightarrow> event list \<Rightarrow> 'w \<Rightarrow> event list \<times> 'w" where
  "wait_loop env dremio_host dremio_port count trace w =
     (if count < 30
      then (case socket_connect env dremio_host dremio_port w of
              (Inl e, w1) \<Rightarrow>
                wait_loop env dremio_host dremio_port (count + 1)
                  (trace @ [Connect dremio_host dremio_port, Sleep 10]) (time_sleep env 10 w1)
            | (Inr u, w1) \<Rightarrow> (trace @ [Connect dremio_host dremio_port], w1))
      else (trace, w))"
  by pat_completeness auto
termination
  by (relation "measure (\<lambda>(env, dremio_host, dremio_port, count, trace, w). nat (30 - count))")
     auto

definition wait_dremio :: "'w env \<Rightarrow> string \<Rightarrow> int \<Rightarrow> 'w \<Rightarrow> event list \<times> 'w" where
  "wait_dremio env dremio_host dremio_port w = wait_loop env dremio_host dremio_port 0 [] w"

section \<open>The specification's vocabulary for secrets and policies\<close>

text \<open>
  The field \<open>k\<close> of a secret or of a response: the value of the key \<open>k\<close> when the value
  is a dictionary that has the key.
\<close>

fun field :: "pyval \<Rightarrow> string \<Rightarrow> pyval option" where
  "field (PDict kvs) k = map_of kvs k"
| "field x k = None"

text \<open>
  The secret for which the specification makes the resolution fail: absent or empty, without
  one of the two keys, or with an empty string for one of them.
\<close>

definition secret_missing :: "pyval \<Rightarrow> bool" where
  "secret_missing credentials =
     (credentials = PNone \<or> credentials = PDict []
      \<or> field credentials ''access_key'' = None
      \<or> field credentials ''secret_key'' = None
      \<or> field credentials ''access_key'' = Some (PStr '''')
      \<or> field credentials ''secret_key'' = Some (PStr ''''))"

text \<open>
  The same with the test that the source applies to the two values: a key is refused when
  its value counts as false, which holds of the empty string and also of 0, \<^verbatim>\<open>false\<close>,
  \<^verbatim>\<open>null\<close>, the empty list and the empty mapping.
\<close>

definition false_value :: "pyval \<Rightarrow> string \<Rightarrow> bool" where
  "false_value credentials k =
     (case field credentials k of None \<Rightarrow> False | Some v \<Rightarrow> \<not> truthy v)"

definition secret_refused :: "pyval \<Rightarrow> bool" where
  "secret_refused credentials =
     (credentials = PNone \<or> credentials = PDict []
      \<or> field credentials ''access_key'' = None
      \<or> field credentials ''secret_key'' = None
      \<or> false_value credentials ''access_key''
      \<or> false_value credentials ''secret_key'')"

text \<open>
  The authentication response lacks \<^verbatim>\<open>auth.client_token\<close>: it has no field \<^verbatim>\<open>auth\<close>, or
  its \<^verbatim>\<open>auth\<close> has no field \<^verbatim>\<open>client_token\<close>. A value that is no object has no field.
\<close>

definition lacks_client_token :: "pyval \<Rightarrow> bool" where
  "lacks_client_token vault_auth_response =
     (case field vault_auth_response ''auth'' of
        None \<Rightarrow> True
      | Some auth \<Rightarrow> field auth ''client_token'' = None)"

text \<open>A JSON object, as opposed to an array, a string, a number or \<^verbatim>\<open>null\<close>.\<close>

fun is_object :: "pyval \<Rightarrow> bool" where
  "is_object (PDict kvs) = True"
| "is_object x = False"

text \<open>
  The policy of a configuration entry in the specification's words: the
  \<^verbatim>\<open>transformations\<close> field decoded as base64 and then as JSON, the \<^verbatim>\<open>name\<close> field of
  the first element of that array, and the \<^verbatim>\<open>columns\<close> field of the object that the
  first element holds under that name.
\<close>

definition entry_policy :: "'w env \<Rightarrow> pyval \<Rightarrow> (pyval \<times> pyval) option" where
  "entry_policy env entry =
     (case field entry ''transformations'' of
        None \<Rightarrow> None
      | Some encoded \<Rightarrow>
     (case b64decode env encoded of
        Inl e \<Rightarrow> None
      | Inr decoded \<Rightarrow>
     (case decode_utf8 env decoded of
        Inl e \<Rightarrow> None
      | Inr json_text \<Rightarrow>
     (case json_loads env json_text of
        Inr (PList (first_element # others)) \<Rightarrow>
          (case field first_element ''name'' of
             Some (PStr policy_name) \<Rightarrow>
               (case field first_element policy_name of
                  None \<Rightarrow> None
                | Some nested \<Rightarrow>
                    (case field nested ''columns'' of
                       None \<Rightarrow> None
                     | Some columns \<Rightarrow> Some (PStr policy_name, columns)))
           | _ \<Rightarrow> None)
      | _ \<Rightarrow> None))))"

section \<open>A sample world\<close>

text \<open>
  A concrete world on which the functions can be run: a vault that answers the login with
  \<open>auth_response\<close> and the read of the secret with \<open>secret_response\<close>, a catalog that refuses
  every connection, and a configuration with two datasets. The state of this world is a
  counter: every HTTP request and every connection attempt adds one to it, and a sleep
  adds its seconds.
\<close>

definition redact_b64 :: string where
  "redact_b64 =
     ''W3sibmFtZSI6IlJlZGFjdEFjdGlvbiIsIlJlZGFjdEFjdGlvbiI6eyJjb2x1bW5zIjpbInNzbiJdfX1d''"

definition redact_text :: string where
  "redact_text = ''[{\"name\":\"RedactAction\",\"RedactAction\":{\"columns\":[\"ssn\"]}}]''"

definition redact_policy :: pyval where
  "redact_policy =
     PList [PDict [(''name'', PStr ''RedactAction''),
                   (''RedactAction'', PDict [(''columns'', PList [PStr ''ssn''])])]]"

definition remove_b64 :: string where
  "remove_b64 =
     ''W3sibmFtZSI6IlJlbW92ZUFjdGlvbiIsIlJlbW92ZUFjdGlvbiI6eyJjb2x1bW5zIjpbInNhbGFyeSIsInNzbiJdfX1d''"

definition remove_text :: string where
  "remove_text =
     ''[{\"name\":\"RemoveAction\",\"RemoveAction\":{\"columns\":[\"salary\",\"ssn\"]}}]''"

definition remove_policy :: pyval where
  "remove_policy =
     PList [PDict [(''name'', PStr ''RemoveAction''),
                   (''RemoveAction'',
                    PDict [(''columns'', PList [PStr ''salary'', PStr ''ssn''])])]]"

definition sample_vault :: pyval where
  "sample_vault =
     PDict [(''address'', PStr ''http://vault:8200''),
            (''secretPath'', PStr ''/v1/secret/s3''),
            (''role'', PStr ''module'')]"

definition medical_entry :: pyval where
  "medical_entry =
     PDict [(''name'', PStr ''samples/medical''),
            (''format'', PStr ''iceberg''),
            (''path'', PStr ''bucket/medical''),
            (''connection'',
             PDict [(''s3'', PDict [(''endpoint_url'', PStr ''http://s3:9000''),
                                    (''vault_credentials'', sample_vault)])]),
            (''transformations'', PStr redact_b64)]"

definition payroll_entry :: pyval where
  "payroll_entry =
     PDict [(''name'', PStr ''samples/payroll''),
            (''format'', PStr ''parquet''),
            (''path'', PStr ''bucket/payroll''),
            (''connection'',
             PDict [(''s3'', PDict [(''endpoint_url'', PStr ''http://s3:9000''),
                                    (''vault_credentials'', sample_vault)])]),
            (''transformations'', PStr remove_b64)]"

definition medical_descriptor :: descriptor where
  "medical_descriptor =
     \<lparr>format = PStr ''iceberg'', endpoint_url = PStr ''http://s3:9000'',
      path = PStr ''bucket/medical'', transformation = PStr ''RedactAction'',
      transformation_cols = PList [PStr ''ssn''], creds = (PStr ''AK'', PStr ''SK'')\<rparr>"

definition payroll_descriptor :: descriptor where
  "payroll_descriptor =
     \<lparr>format = PStr ''parquet'', endpoint_url = PStr ''http://s3:9000'',
      path = PStr ''bucket/payroll'', transformation = PStr ''RemoveAction'',
      transformation_cols = PList [PStr ''salary'', PStr ''ssn''],
      creds = (PStr ''AK'', PStr ''SK'')\<rparr>"

definition sample_items :: "pyval \<Rightarrow> (string \<times> pyval) list" where
  "sample_items datasets = [(''app-uuid'', PStr ''123''), (''data'', datasets)]"

definition sample_env :: "response \<Rightarrow> response \<Rightarrow> pyval \<Rightarrow> nat env" where
  "sample_env auth_response secret_response datasets =
     \<lparr>open_read = (\<lambda>file_name w.
        (if file_name = PStr ''/etc/conf/conf.yaml'' then Inr ''conf'' else Inr ''jwt'', w)),
      requests_post = (\<lambda>url body w. (Inr auth_response, Suc w)),
      requests_get = (\<lambda>url headers w. (Inr secret_response, Suc w)),
      socket_connect = (\<lambda>host port w. (Inl (LibraryError ''Connection refused''), Suc w)),
      time_sleep = (\<lambda>seconds w. w + nat seconds),
      b64decode = (\<lambda>encoded.
        if encoded = PStr redact_b64 then Inr redact_text
        else if encoded = PStr remove_b64 then Inr remove_text
        else Inl (LibraryError ''Incorrect padding'')),
      decode_utf8 = (\<lambda>raw. Inr raw),
      json_loads = (\<lambda>text.
        if text = redact_text then Inr redact_policy
        else if text = remove_text then Inr remove_policy
        else Inl (LibraryError ''JSONDecodeError'')),
      yaml_safe_load = (\<lambda>stream. Inr (PDict (sample_items datasets)))\<rparr>"

definition auth_ok :: response where
  "auth_ok =
     \<lparr>status_code = 200,
      json = Inr (PDict [(''auth'', PDict [(''client_token'', PStr ''s.token'')])])\<rparr>"

definition secret_ok :: response where
  "secret_ok =
     \<lparr>status_code = 200,
      json = Inr (PDict [(''data'', PDict [(''access_key'', PStr ''AK''),
                                          (''secret_key'', PStr ''SK'')])])\<rparr>"

text \<open>Secrets with an access key that is the empty string, and that is the number 0.\<close>

definition secret_blank :: response where
  "secret_blank =
     \<lparr>status_code = 200,
      json = Inr (PDict [(''data'', PDict [(''access_key'', PStr ''''),
                                          (''secret_key'', PStr ''SK'')])])\<rparr>"

definition secret_zero :: response where
  "secret_zero =
     \<lparr>status_code = 200,
      json = Inr (PDict [(''data'', PDict [(''access_key'', PInt 0),
                                          (''secret_key'', PStr ''SK'')])])\<rparr>"

text \<open>
  Refusals of the vault: a 403 whose body is the JSON that the vault sends, and a 403 whose
  body is no JSON, as a proxy in front of the vault sends it, so that \<^verbatim>\<open>response.json()\<close>
  raises.
\<close>

definition auth_forbidden :: response where
  "auth_forbidden =
     \<lparr>status_code = 403,
      json = Inr (PDict [(''errors'', PList [PStr ''permission denied''])])\<rparr>"

definition auth_forbidden_page :: response where
  "auth_forbidden_page =
     \<lparr>status_code = 403, json = Inl (LibraryError ''JSONDecodeError'')\<rparr>"

text \<open>
  An answer 200 to the login that carries no token: \<^verbatim>\<open>{"auth": null}\<close>, as the vault
  writes the field in every response that is not a login.
\<close>

definition auth_null :: response where
  "auth_null = \<lparr>status_code = 200, json = Inr (PDict [(''auth'', PNone)])\<rparr>"

text \<open>
  Answers to the read of the secret: a 500 whose body is no JSON, and a 200 whose body is
  \<^verbatim>\<open>null\<close>.
\<close>

definition secret_unavailable_page :: response where
  "secret_unavailable_page =
     \<lparr>status_code = 500, json = Inl (LibraryError ''JSONDecodeError'')\<rparr>"

definition secret_null :: response where
  "secret_null = \<lparr>status_code = 200, json = Inr PNone\<rparr>"

section \<open>Proofs\<close>

lemma add_cols_comma_joined:
  "add_cols (acc @ c) cs = acc @ comma_joined (c # cs)"
proof (induction cs arbitrary: acc c)
  case Nil
  show ?case by simp
next
  case (Cons d ds)
  have "add_cols (acc @ c) (d # ds) = add_cols ((acc @ c @ '', '') @ d) ds"
    by simp
  also have "\<dots> = (acc @ c @ '', '') @ comma_joined (d # ds)"
    by (rule Cons.IH)
  finally show ?case by simp
qed

lemma add_cols_hd_tl:
  "xs \<noteq> [] \<Longrightarrow> add_cols (hd xs) (tl xs) = comma_joined xs"
  using add_cols_comma_joined [of "[]" "hd xs" "tl xs"] by simp

lemma request_cols_allowed:
  "[col \<leftarrow> allCols. col \<notin> set protectedCols] = allowed_cols allCols protectedCols"
  by (simp add: allowed_cols_def)

lemma get_policy_query_unfold:
  "get_policy_query protectedCols sql_path allCols =
     (if allowed_cols allCols protectedCols = [] then ''''
      else ''select '' @ add_cols (hd (allowed_cols allCols protectedCols))
                                   (tl (allowed_cols allCols protectedCols))
           @ '' from '' @ [CHR 0x22] @ sql_path)"
  by (simp add: get_policy_query_def request_cols_allowed Let_def)

text \<open>
  Claim C1. For all column lists \<open>allCols\<close> and \<open>protectedCols\<close>, the columns listed in the
  query that \<open>get_policy_query\<close> returns are those of \<open>allCols\<close> that do not occur in
  \<open>protectedCols\<close>, in the order of \<open>allCols\<close> and with their repetitions: the query is
  \<^verbatim>\<open>select\<close>, these columns separated by comma and blank, \<^verbatim>\<open>from "\<close> and the path; when no
  column is left it is the empty string, which lists no column.
\<close>

theorem get_policy_query_columns:
  "get_policy_query protectedCols sql_path allCols =
     (if allowed_cols allCols protectedCols = [] then ''''
      else ''select '' @ comma_joined (allowed_cols allCols protectedCols)
           @ '' from \"'' @ sql_path)"
proof (cases "allowed_cols allCols protectedCols = []")
  case True
  then show ?thesis by (simp add: get_policy_query_unfold)
next
  case False
  then show ?thesis by (simp add: get_policy_query_unfold add_cols_hd_tl)
qed

text \<open>
  Claim C3, as the specification words it: for the columns \<^verbatim>\<open>id, name, ssn, salary\<close>, the
  protected columns \<^verbatim>\<open>ssn, salary\<close> and the path \<^verbatim>\<open>src"."t\<close> the query would be
  \<^verbatim>\<open>SELECT id, name FROM "src"."t\<close>. The source writes both keywords in lower case, so
  the string it returns is another one.
\<close>

theorem get_policy_query_example_uppercase_counterexample:
  "get_policy_query [''ssn'', ''salary''] ''src\".\"t'' [''id'', ''name'', ''ssn'', ''salary'']
     \<noteq> ''SELECT id, name FROM \"src\".\"t''"
  by (simp add: get_policy_query_def)

text \<open>
  Claim C3, amended: for that input \<open>get_policy_query\<close> returns exactly
  \<^verbatim>\<open>select id, name from "src"."t\<close>, with the keywords in lower case and the quote after the
  path left open.
\<close>

theorem get_policy_query_example:
  "get_policy_query [''ssn'', ''salary''] ''src\".\"t'' [''id'', ''name'', ''ssn'', ''salary'']
     = ''select id, name from \"src\".\"t''"
  by (simp add: get_policy_query_def)

text \<open>
  Claim C5. When every name of \<open>allCols\<close> occurs in \<open>protectedCols\<close>, in particular when
  both lists hold the same names, \<open>get_policy_query\<close> returns the empty string.
\<close>

theorem get_policy_query_all_protected:
  assumes "set allCols \<subseteq> set protectedCols"
  shows "get_policy_query protectedCols sql_path allCols = ''''"
proof -
  have "[col \<leftarrow> allCols. col \<notin> set protectedCols] = []"
    using assms by (auto simp: filter_empty_conv)
  then show ?thesis by (simp add: get_policy_query_def)
qed

theorem get_policy_query_all_protected_witness:
  "set [''id'', ''ssn'', ''id''] \<subseteq> set [''ssn'', ''id'']
   \<and> get_policy_query [''ssn'', ''id''] ''src\".\"t'' [''id'', ''ssn'', ''id''] = ''''"
proof -
  have h: "set [''id'', ''ssn'', ''id''] \<subseteq> set [''ssn'', ''id'']" by simp
  show ?thesis
    using h get_policy_query_all_protected [OF h, of "''src\".\"t''"] by simp
qed

text \<open>
  Claim C10. The query depends on the protected columns only through the set of their
  names: two lists \<open>protectedCols\<close> with the same elements, in whatever order and with
  whatever repetitions, give the same query for every path and every \<open>allCols\<close>.
\<close>

theorem get_policy_query_protected_set:
  assumes "set protectedCols = set protectedCols'"
  shows "get_policy_query protectedCols sql_path allCols
           = get_policy_query protectedCols' sql_path allCols"
  using assms by (simp add: get_policy_query_def)

theorem get_policy_query_protected_set_witness:
  "set [''ssn'', ''salary''] = set [''salary'', ''ssn'', ''salary'']
   \<and> get_policy_query [''ssn'', ''salary''] ''src\".\"t'' [''id'', ''name'', ''ssn'', ''salary'']
       = get_policy_query [''salary'', ''ssn'', ''salary''] ''src\".\"t''
           [''id'', ''name'', ''ssn'', ''salary'']"
proof -
  have h: "set [''ssn'', ''salary''] = set [''salary'', ''ssn'', ''salary'']" by auto
  show ?thesis
    using h get_policy_query_protected_set
      [OF h, of "''src\".\"t''" "[''id'', ''name'', ''ssn'', ''salary'']"]
    by simp
qed

subsection \<open>Readiness waiter\<close>

declare wait_loop.simps [simp del]

text \<open>
  While every connect fails, the loop started with \<open>count\<close> failures behind it makes one
  connect and one sleep of 10 for each of the \<open>30 - count\<close> rounds that are left.
\<close>

lemma wait_loop_all_fail:
  "\<forall>w. isl (fst (socket_connect env h p w)) \<Longrightarrow> count \<le> 30 \<Longrightarrow>
     fst (wait_loop env h p count trace w)
       = trace @ concat (replicate (nat (30 - count)) [Connect h p, Sleep 10])"
proof (induction env h p count trace w rule: wait_loop.induct)
  case (1 env h p count trace w)
  show ?case
  proof (cases "count < 30")
    case False
    with "1.prems" have "count = 30" by simp
    then show ?thesis by (simp add: wait_loop.simps)
  next
    case True
    from "1.prems"(1) obtain e w1 where r: "socket_connect env h p w = (Inl e, w1)"
      by (metis isl_def prod.collapse)
    have step: "wait_loop env h p count trace w
                  = wait_loop env h p (count + 1) (trace @ [Connect h p, Sleep 10])
                      (time_sleep env 10 w1)"
      using True r by (subst wait_loop.simps) simp
    have "fst (wait_loop env h p (count + 1) (trace @ [Connect h p, Sleep 10])
                 (time_sleep env 10 w1))
            = (trace @ [Connect h p, Sleep 10])
              @ concat (replicate (nat (30 - (count + 1))) [Connect h p, Sleep 10])"
      using "1.IH" [OF True r [symmetric] refl "1.prems"(1)] True by simp
    moreover have "nat (30 - count) = Suc (nat (30 - (count + 1)))"
      using True by simp
    ultimately show ?thesis
      by (simp add: step)
  qed
qed

text \<open>
  What the loop does to the world: one round is a connect followed by a sleep of 10, and
  while every connect fails the loop applies the round once for each of the \<open>30 - count\<close>
  rounds that are left.
\<close>

lemma wait_loop_all_fail_world:
  "\<forall>w. isl (fst (socket_connect env h p w)) \<Longrightarrow> count \<le> 30 \<Longrightarrow>
     snd (wait_loop env h p count trace w)
       = ((\<lambda>w. time_sleep env 10 (snd (socket_connect env h p w))) ^^ nat (30 - count)) w"
proof (induction env h p count trace w rule: wait_loop.induct)
  case (1 env h p count trace w)
  define round where "round = (\<lambda>w. time_sleep env 10 (snd (socket_connect env h p w)))"
  show ?case
  proof (cases "count < 30")
    case False
    with "1.prems" have "count = 30" by simp
    then show ?thesis by (simp add: wait_loop.simps)
  next
    case True
    from "1.prems"(1) obtain e w1 where r: "socket_connect env h p w = (Inl e, w1)"
      by (metis isl_def prod.collapse)
    have step: "wait_loop env h p count trace w
                  = wait_loop env h p (count + 1) (trace @ [Connect h p, Sleep 10])
                      (time_sleep env 10 w1)"
      using True r by (subst wait_loop.simps) simp
    have "snd (wait_loop env h p (count + 1) (trace @ [Connect h p, Sleep 10])
                 (time_sleep env 10 w1))
            = (round ^^ nat (30 - (count + 1))) (time_sleep env 10 w1)"
      using "1.IH" [OF True r [symmetric] refl "1.prems"(1)] True by (simp add: round_def)
    moreover have "time_sleep env 10 w1 = round w"
      using r by (simp add: round_def)
    moreover have "nat (30 - count) = Suc (nat (30 - (count + 1)))"
      using True by simp
    ultimately have "snd (wait_loop env h p count trace w) = (round ^^ nat (30 - count)) w"
      by (simp add: step funpow_swap1)
    then show ?thesis by (simp add: round_def)
  qed
qed

lemma count_connects_rounds:
  "length (filter (\<lambda>ev. ev = Connect h p) (concat (replicate n [Connect h p, Sleep 10]))) = n"
  by (induction n) simp_all

lemma count_sleeps_rounds:
  "length (filter (\<lambda>ev. ev = Sleep 10) (concat (replicate n [Connect h p, Sleep 10]))) = n"
  by (induction n) simp_all

text \<open>
  Claim C7. If every connect fails, whatever the state of the world, \<open>wait_dremio\<close> returns,
  and the world it leaves is the one reached from the initial world by exactly 30 rounds,
  each a connect on the host and port followed by a sleep of 10: it has called the connect
  30 times and slept 10 after each failure. The list of what it did says the same: 30
  connects, each followed by a sleep of 10. There is no exceptional outcome: whatever the
  connect raises is caught.
\<close>

theorem wait_dremio_gives_up:
  assumes "\<forall>w. isl (fst (socket_connect env dremio_host dremio_port w))"
  shows "snd (wait_dremio env dremio_host dremio_port w)
           = ((\<lambda>w. time_sleep env 10 (snd (socket_connect env dremio_host dremio_port w)))
                ^^ 30) w
         \<and> fst (wait_dremio env dremio_host dremio_port w)
           = concat (replicate 30 [Connect dremio_host dremio_port, Sleep 10])
         \<and> length (filter (\<lambda>ev. ev = Connect dremio_host dremio_port)
                     (fst (wait_dremio env dremio_host dremio_port w))) = 30
         \<and> length (filter (\<lambda>ev. ev = Sleep 10)
                     (fst (wait_dremio env dremio_host dremio_port w))) = 30"
proof -
  have world: "snd (wait_dremio env dremio_host dremio_port w)
           = ((\<lambda>w. time_sleep env 10 (snd (socket_connect env dremio_host dremio_port w)))
                ^^ 30) w"
    using wait_loop_all_fail_world [OF assms, of 0 "[]" w] by (simp add: wait_dremio_def)
  have "fst (wait_dremio env dremio_host dremio_port w)
          = concat (replicate 30 [Connect dremio_host dremio_port, Sleep 10])"
    using wait_loop_all_fail [OF assms, of 0 "[]" w] by (simp add: wait_dremio_def)
  then show ?thesis
    using world by (simp only: count_connects_rounds count_sleeps_rounds)
qed

lemma funpow_add_nat: "((\<lambda>w::nat. w + k) ^^ n) w = w + k * n"
  by (induction n arbitrary: w) simp_all

lemma sample_round:
  "(\<lambda>w. time_sleep (sample_env a s d) 10 (snd (socket_connect (sample_env a s d) h p w)))
     = (\<lambda>w. w + 11)"
  by (simp add: sample_env_def fun_eq_iff)

theorem wait_dremio_gives_up_witness:
  "(\<forall>w. isl (fst (socket_connect (sample_env auth_ok secret_ok PNone) ''dremio'' 9047 w)))
   \<and> snd (wait_dremio (sample_env auth_ok secret_ok PNone) ''dremio'' 9047 0) = 330
   \<and> length (filter (\<lambda>ev. ev = Connect ''dremio'' 9047)
               (fst (wait_dremio (sample_env auth_ok secret_ok PNone) ''dremio'' 9047 0))) = 30"
proof -
  have h: "\<forall>w. isl (fst (socket_connect (sample_env auth_ok secret_ok PNone) ''dremio'' 9047 w))"
    by (simp add: sample_env_def)
  note gives_up = wait_dremio_gives_up [OF h, of 0]
  from gives_up
  have "snd (wait_dremio (sample_env auth_ok secret_ok PNone) ''dremio'' 9047 0) = 330"
    by (simp add: sample_round funpow_add_nat)
  with h gives_up show ?thesis by blast
qed


subsection \<open>Secret resolver\<close>

lemma on_ok_simps [simp]: "on_ok (Inl e) f = Inl e" "on_ok (Inr x) f = f x"
  by (simp_all add: on_ok_def)

lemma io_simps [simp]: "io (Inl e, w) = Inl e" "io (Inr x, w) = Inr (x, w)"
  by (simp_all add: io_def)

lemma map_of_in_keys: "(k \<in> fst ` set kvs) = (map_of kvs k \<noteq> None)"
  by (simp add: map_of_eq_None_iff)

text \<open>
  Once the settings and the token file are read and the vault has answered with
  \<open>credentials\<close>, what is left of \<open>get_credentials_from_vault\<close> are its checks.
\<close>

lemma get_credentials_from_vault_unfold:
  assumes "dict_get vault_credentials ''jwt_file_path''
             (PStr ''/var/run/secrets/kubernetes.io/serviceaccount/token'') = Inr jwt_file_path"
    and "get_jwt_from_file env jwt_file_path w = Inr (jwt, w1)"
    and "dict_get vault_credentials ''address'' (PStr ''https://localhost:8200'') = Inr vault_address"
    and "dict_get vault_credentials ''secretPath'' (PStr ''/v1/secret/data/cred'') = Inr secret_path"
    and "dict_get vault_credentials ''authPath'' (PStr ''/v1/auth/kubernetes/login'') = Inr vault_auth"
    and "dict_get vault_credentials ''role'' (PStr ''demo'') = Inr role"
    and "get_raw_secret_from_vault env jwt secret_path vault_address vault_auth role data_set_id w1
           = Inr (credentials, w2)"
  shows "get_credentials_from_vault env vault_credentials data_set_id w =
     (if \<not> truthy credentials then Inl missing_credentials
     else
     on_ok (py_in ''access_key'' credentials) (\<lambda>has_access.
     on_ok (if has_access then py_in ''secret_key'' credentials else Inr False) (\<lambda>has_both.
     if has_both
     then
       on_ok (getitem credentials (PStr ''access_key'')) (\<lambda>access_key.
       on_ok (if truthy access_key then getitem credentials (PStr ''secret_key'')
              else Inr access_key) (\<lambda>both_keys.
       if truthy both_keys
       then on_ok (getitem credentials (PStr ''access_key'')) (\<lambda>access_key'.
            on_ok (getitem credentials (PStr ''secret_key'')) (\<lambda>secret_key'.
            Inr ((access_key', secret_key'), w2)))
       else on_ok (getitem credentials (PStr ''access_key'')) (\<lambda>checked_access.
            on_ok (getitem credentials (PStr ''secret_key'')) (\<lambda>checked_secret.
            Inl missing_credentials))))
     else Inl missing_credentials)))"
  using assms by (simp add: get_credentials_from_vault_def)

text \<open>
  The checks on every secret that is absent or an object, whatever the values of its
  keys: the source tests the two values for truth, so that it refuses the empty string and
  with it every other value that counts as false.
\<close>

lemma get_credentials_from_vault_result:
  assumes "dict_get vault_credentials ''jwt_file_path''
             (PStr ''/var/run/secrets/kubernetes.io/serviceaccount/token'') = Inr jwt_file_path"
    and "get_jwt_from_file env jwt_file_path w = Inr (jwt, w1)"
    and "dict_get vault_credentials ''address'' (PStr ''https://localhost:8200'') = Inr vault_address"
    and "dict_get vault_credentials ''secretPath'' (PStr ''/v1/secret/data/cred'') = Inr secret_path"
    and "dict_get vault_credentials ''authPath'' (PStr ''/v1/auth/kubernetes/login'') = Inr vault_auth"
    and "dict_get vault_credentials ''role'' (PStr ''demo'') = Inr role"
    and "get_raw_secret_from_vault env jwt secret_path vault_address vault_auth role data_set_id w1
           = Inr (credentials, w2)"
    and shape: "credentials = PNone \<or> is_object credentials"
  shows "get_credentials_from_vault env vault_credentials data_set_id w =
     (case (field credentials ''access_key'', field credentials ''secret_key'') of
         (Some a, Some s) \<Rightarrow>
            if truthy a \<and> truthy s then Inr ((a, s), w2) else Inl missing_credentials
       | _ \<Rightarrow> Inl missing_credentials)"
proof -
  note unfold = get_credentials_from_vault_unfold [OF assms(1-7)]
  from shape consider "credentials = PNone" | kvs where "credentials = PDict kvs"
    by (cases credentials) simp_all
  then show ?thesis
  proof cases
    case 1
    then show ?thesis by (simp add: unfold)
  next
    case dict: 2
    show ?thesis
    proof (cases "map_of kvs ''access_key''")
      case None
      then show ?thesis by (simp add: unfold dict map_of_in_keys)
    next
      case a: (Some av)
      show ?thesis
      proof (cases "map_of kvs ''secret_key''")
        case None
        then show ?thesis using a by (simp add: unfold dict map_of_in_keys)
      next
        case s: (Some sv)
        have "kvs \<noteq> []" using a by auto
        then show ?thesis using a s by (simp add: unfold dict map_of_in_keys)
      qed
    qed
  qed
qed

text \<open>A secret that is no object is never accepted.\<close>

lemma get_credentials_from_vault_no_mapping:
  assumes "dict_get vault_credentials ''jwt_file_path''
             (PStr ''/var/run/secrets/kubernetes.io/serviceaccount/token'') = Inr jwt_file_path"
    and "get_jwt_from_file env jwt_file_path w = Inr (jwt, w1)"
    and "dict_get vault_credentials ''address'' (PStr ''https://localhost:8200'') = Inr vault_address"
    and "dict_get vault_credentials ''secretPath'' (PStr ''/v1/secret/data/cred'') = Inr secret_path"
    and "dict_get vault_credentials ''authPath'' (PStr ''/v1/auth/kubernetes/login'') = Inr vault_auth"
    and "dict_get vault_credentials ''role'' (PStr ''demo'') = Inr role"
    and "get_raw_secret_from_vault env jwt secret_path vault_address vault_auth role data_set_id w1
           = Inr (credentials, w2)"
    and "\<not> is_object credentials"
  shows "get_credentials_from_vault env vault_credentials data_set_id w \<noteq> Inr r"
  using assms(8)
  by (cases credentials) (simp_all add: get_credentials_from_vault_unfold [OF assms(1-7)])

lemma sample_vault_settings:
  "dict_get sample_vault ''jwt_file_path''
     (PStr ''/var/run/secrets/kubernetes.io/serviceaccount/token'')
     = Inr (PStr ''/var/run/secrets/kubernetes.io/serviceaccount/token'')"
  "dict_get sample_vault ''address'' (PStr ''https://localhost:8200'')
     = Inr (PStr ''http://vault:8200'')"
  "dict_get sample_vault ''secretPath'' (PStr ''/v1/secret/data/cred'')
     = Inr (PStr ''/v1/secret/s3'')"
  "dict_get sample_vault ''authPath'' (PStr ''/v1/auth/kubernetes/login'')
     = Inr (PStr ''/v1/auth/kubernetes/login'')"
  "dict_get sample_vault ''role'' (PStr ''demo'') = Inr (PStr ''module'')"
  by (simp_all add: sample_vault_def)

lemma sample_jwt:
  "get_jwt_from_file (sample_env a s d)
     (PStr ''/var/run/secrets/kubernetes.io/serviceaccount/token'') w = Inr (''jwt'', w)"
  by (simp add: get_jwt_from_file_def sample_env_def)

lemma sample_secret:
  "get_raw_secret_from_vault (sample_env auth_ok secret_ok d) ''jwt'' (PStr ''/v1/secret/s3'')
     (PStr ''http://vault:8200'') (PStr ''/v1/auth/kubernetes/login'') (PStr ''module'')
     ds w
   = Inr (PDict [(''access_key'', PStr ''AK''), (''secret_key'', PStr ''SK'')], Suc (Suc w))"
  by (simp add: get_raw_secret_from_vault_def vault_jwt_auth_def sample_env_def auth_ok_def
        secret_ok_def)

lemma sample_secret_blank:
  "get_raw_secret_from_vault (sample_env auth_ok secret_blank d) ''jwt'' (PStr ''/v1/secret/s3'')
     (PStr ''http://vault:8200'') (PStr ''/v1/auth/kubernetes/login'') (PStr ''module'')
     ds w
   = Inr (PDict [(''access_key'', PStr ''''), (''secret_key'', PStr ''SK'')], Suc (Suc w))"
  by (simp add: get_raw_secret_from_vault_def vault_jwt_auth_def sample_env_def auth_ok_def
        secret_blank_def)

lemma sample_secret_zero:
  "get_raw_secret_from_vault (sample_env auth_ok secret_zero d) ''jwt'' (PStr ''/v1/secret/s3'')
     (PStr ''http://vault:8200'') (PStr ''/v1/auth/kubernetes/login'') (PStr ''module'')
     ds w
   = Inr (PDict [(''access_key'', PInt 0), (''secret_key'', PStr ''SK'')], Suc (Suc w))"
  by (simp add: get_raw_secret_from_vault_def vault_jwt_auth_def sample_env_def auth_ok_def
        secret_zero_def)

text \<open>
  Claim C2, as the specification words it: \<open>get_credentials_from_vault\<close> would raise the
  missing-credentials error exactly when the resolved secret is absent or empty, lacks
  \<^verbatim>\<open>access_key\<close>, lacks \<^verbatim>\<open>secret_key\<close>, or has the empty string for one of them. The vault
  answers the read of the secret with \<^verbatim>\<open>{"data": {"access_key": 0, "secret_key": "SK"}}\<close>:
  the secret is a mapping with both keys and neither value is the empty string, and the
  source raises the missing-credentials error all the same, for 0 counts as false.
\<close>

theorem get_credentials_from_vault_zero_key_counterexample:
  "get_raw_secret_from_vault (sample_env auth_ok secret_zero PNone) ''jwt''
     (PStr ''/v1/secret/s3'') (PStr ''http://vault:8200'') (PStr ''/v1/auth/kubernetes/login'')
     (PStr ''module'') (PStr ''samples/medical'') 0
     = Inr (PDict [(''access_key'', PInt 0), (''secret_key'', PStr ''SK'')], 2)
   \<and> \<not> secret_missing (PDict [(''access_key'', PInt 0), (''secret_key'', PStr ''SK'')])
   \<and> get_credentials_from_vault (sample_env auth_ok secret_zero PNone) sample_vault
         (PStr ''samples/medical'') 0 = Inl missing_credentials"
proof -
  have "get_credentials_from_vault (sample_env auth_ok secret_zero PNone) sample_vault
          (PStr ''samples/medical'') 0 = Inl missing_credentials"
    by (simp add: get_credentials_from_vault_unfold
          [OF sample_vault_settings(1) sample_jwt sample_vault_settings(2-5) sample_secret_zero])
  moreover
  have "\<not> secret_missing (PDict [(''access_key'', PInt 0), (''secret_key'', PStr ''SK'')])"
    by (simp add: secret_missing_def)
  ultimately show ?thesis
    using sample_secret_zero [of PNone "PStr ''samples/medical''" 0]
    by (simp add: numeral_2_eq_2)
qed

text \<open>
  Claim C2, amended. Let the vault settings be read, the token file be read and
  \<open>get_raw_secret_from_vault\<close> return \<open>credentials\<close>. When the secret is absent or a
  mapping, \<open>get_credentials_from_vault\<close> raises the missing-credentials error exactly when
  the secret is absent or empty, lacks \<^verbatim>\<open>access_key\<close>, lacks \<^verbatim>\<open>secret_key\<close>, or has for
  one of them a value that counts as false: the empty string, and also 0, \<^verbatim>\<open>false\<close>,
  \<^verbatim>\<open>null\<close>, an empty list or an empty mapping. For every secret it succeeds exactly when
  both keys are present with values that count as true, and then it returns the two
  values as the pair (access key, secret key).
\<close>

theorem get_credentials_from_vault_truthiness:
  assumes "dict_get vault_credentials ''jwt_file_path''
             (PStr ''/var/run/secrets/kubernetes.io/serviceaccount/token'') = Inr jwt_file_path"
    and "get_jwt_from_file env jwt_file_path w = Inr (jwt, w1)"
    and "dict_get vault_credentials ''address'' (PStr ''https://localhost:8200'') = Inr vault_address"
    and "dict_get vault_credentials ''secretPath'' (PStr ''/v1/secret/data/cred'') = Inr secret_path"
    and "dict_get vault_credentials ''authPath'' (PStr ''/v1/auth/kubernetes/login'') = Inr vault_auth"
    and "dict_get vault_credentials ''role'' (PStr ''demo'') = Inr role"
    and "get_raw_secret_from_vault env jwt secret_path vault_address vault_auth role data_set_id w1
           = Inr (credentials, w2)"
  shows "(credentials = PNone \<or> is_object credentials \<longrightarrow>
            (get_credentials_from_vault env vault_credentials data_set_id w
               = Inl missing_credentials \<longleftrightarrow> secret_refused credentials))
         \<and> ((\<exists>r. get_credentials_from_vault env vault_credentials data_set_id w = Inr r)
              \<longleftrightarrow> \<not> secret_refused credentials)
         \<and> (\<not> secret_refused credentials \<longrightarrow>
              (\<exists>a s. field credentials ''access_key'' = Some a
                   \<and> field credentials ''secret_key'' = Some s
                   \<and> get_credentials_from_vault env vault_credentials data_set_id w
                       = Inr ((a, s), w2)))"
proof (cases "credentials = PNone \<or> is_object credentials")
  case True
  note result = get_credentials_from_vault_result [OF assms True]
  from True consider "credentials = PNone" | kvs where "credentials = PDict kvs"
    by (cases credentials) simp_all
  then show ?thesis
  proof cases
    case 1
    then show ?thesis by (simp add: result secret_refused_def)
  next
    case dict: 2
    show ?thesis
    proof (cases "map_of kvs ''access_key''")
      case None
      then show ?thesis by (simp add: result dict secret_refused_def)
    next
      case a: (Some av)
      show ?thesis
      proof (cases "map_of kvs ''secret_key''")
        case None
        then show ?thesis using a by (simp add: result dict secret_refused_def)
      next
        case s: (Some sv)
        have "kvs \<noteq> []" using a by auto
        then show ?thesis using a s
          by (auto simp add: result dict secret_refused_def false_value_def)
      qed
    qed
  qed
next
  case False
  then have no_object: "\<not> is_object credentials" by simp
  have "field credentials ''access_key'' = None"
    using no_object by (cases credentials) simp_all
  then have refused: "secret_refused credentials" by (simp add: secret_refused_def)
  from get_credentials_from_vault_no_mapping [OF assms no_object] False refused
  show ?thesis by simp
qed

theorem get_credentials_from_vault_truthiness_witness:
  "get_credentials_from_vault (sample_env auth_ok secret_ok PNone) sample_vault
     (PStr ''samples/medical'') 0 = Inr ((PStr ''AK'', PStr ''SK''), 2)
   \<and> secret_refused (PDict [(''access_key'', PStr ''''), (''secret_key'', PStr ''SK'')])
   \<and> get_credentials_from_vault (sample_env auth_ok secret_blank PNone) sample_vault
         (PStr ''samples/medical'') 0 = Inl missing_credentials
   \<and> secret_refused (PDict [(''access_key'', PInt 0), (''secret_key'', PStr ''SK'')])
   \<and> get_credentials_from_vault (sample_env auth_ok secret_zero PNone) sample_vault
         (PStr ''samples/medical'') 0 = Inl missing_credentials"
proof -
  note ok = get_credentials_from_vault_truthiness
    [OF sample_vault_settings(1) sample_jwt sample_vault_settings(2-5) sample_secret]
  note blank = get_credentials_from_vault_truthiness
    [OF sample_vault_settings(1) sample_jwt sample_vault_settings(2-5) sample_secret_blank]
  note zero = get_credentials_from_vault_truthiness
    [OF sample_vault_settings(1) sample_jwt sample_vault_settings(2-5) sample_secret_zero]
  have accepted:
    "\<not> secret_refused (PDict [(''access_key'', PStr ''AK''), (''secret_key'', PStr ''SK'')])"
    by (simp add: secret_refused_def false_value_def)
  have refused_blank:
    "secret_refused (PDict [(''access_key'', PStr ''''), (''secret_key'', PStr ''SK'')])"
    by (simp add: secret_refused_def false_value_def)
  have refused_zero:
    "secret_refused (PDict [(''access_key'', PInt 0), (''secret_key'', PStr ''SK'')])"
    by (simp add: secret_refused_def false_value_def)
  from ok accepted
  have "get_credentials_from_vault (sample_env auth_ok secret_ok PNone) sample_vault
          (PStr ''samples/medical'') 0 = Inr ((PStr ''AK'', PStr ''SK''), Suc (Suc 0))"
    by auto
  moreover from blank refused_blank
  have "get_credentials_from_vault (sample_env auth_ok secret_blank PNone) sample_vault
          (PStr ''samples/medical'') 0 = Inl missing_credentials"
    by simp
  moreover from zero refused_zero
  have "get_credentials_from_vault (sample_env auth_ok secret_zero PNone) sample_vault
          (PStr ''samples/medical'') 0 = Inl missing_credentials"
    by simp
  ultimately show ?thesis using refused_blank refused_zero
    by (simp add: numeral_2_eq_2)
qed

text \<open>
  Where the answers of the vault are JSON objects, \<open>get_raw_secret_from_vault\<close> does what
  the specification says of it: no authentication gives \<^verbatim>\<open>None\<close>, an answer to the login
  with a status other than 200 is no authentication, a login without a token gives
  \<^verbatim>\<open>None\<close>, and with a token the answer to the read decides.
\<close>

lemma auth_none_secret_none:
  assumes "vault_jwt_auth env jwt vault_address vault_path role datasetID w = Inr (PNone, w1)"
  shows "get_raw_secret_from_vault env jwt secret_path vault_address vault_path role datasetID w
           = Inr (PNone, w1)"
  using assms by (simp add: get_raw_secret_from_vault_def)

lemma auth_not_200_none:
  assumes "py_add vault_address vault_path = Inr full_auth_path"
    and "requests_post env full_auth_path (PDict [(''jwt'', PStr jwt), (''role'', role)]) w
           = (Inr response, w1)"
    and "status_code response \<noteq> 200"
    and "json response = Inr logged"
  shows "vault_jwt_auth env jwt vault_address vault_path role datasetID w = Inr (PNone, w1)"
  using assms by (simp add: vault_jwt_auth_def)

lemma objects_without_token_secret_none:
  assumes "vault_jwt_auth env jwt vault_address vault_path role datasetID w
             = Inr (PDict kvs, w1)"
    and "map_of kvs ''auth'' = None
         \<or> (\<exists>auth. map_of kvs ''auth'' = Some (PDict auth) \<and> map_of auth ''client_token'' = None)"
  shows "get_raw_secret_from_vault env jwt secret_path vault_address vault_path role datasetID w
           = Inr (PNone, w1)"
  using assms by (auto simp add: get_raw_secret_from_vault_def map_of_in_keys)

lemma token_secret_outcome:
  assumes "vault_jwt_auth env jwt vault_address vault_path role datasetID w
             = Inr (vault_auth_response, w1)"
    and "field vault_auth_response ''auth'' = Some auth"
    and "field auth ''client_token'' = Some client_token"
    and "py_add vault_address secret_path = Inr secret_full_path"
    and "requests_get env secret_full_path [(''X-Vault-Token'', client_token)] w1
           = (Inr response, w2)"
    and "json response = Inr response_json"
    and "status_code response = 200 \<longrightarrow> is_object response_json"
  shows "get_raw_secret_from_vault env jwt secret_path vault_address vault_path role datasetID w
           = Inr (if status_code response = 200
                  then (case field response_json ''data'' of None \<Rightarrow> PNone | Some d \<Rightarrow> d)
                  else PNone, w2)"
proof -
  from assms(2) obtain kvs where
    r: "vault_auth_response = PDict kvs" "map_of kvs ''auth'' = Some auth"
    by (cases vault_auth_response) simp_all
  from assms(3) obtain avs where
    a: "auth = PDict avs" "map_of avs ''client_token'' = Some client_token"
    by (cases auth) simp_all
  show ?thesis
  proof (cases "status_code response = 200")
    case False
    then show ?thesis using assms r a
      by (simp add: get_raw_secret_from_vault_def map_of_in_keys)
  next
    case True
    with assms(7) obtain body where b: "response_json = PDict body"
      by (cases response_json) simp_all
    show ?thesis using True assms r a b
      by (cases "map_of body ''data''") (simp_all add: get_raw_secret_from_vault_def map_of_in_keys)
  qed
qed

lemma secret_none_missing_credentials:
  assumes "dict_get vault_credentials ''jwt_file_path''
             (PStr ''/var/run/secrets/kubernetes.io/serviceaccount/token'') = Inr jwt_file_path"
    and "get_jwt_from_file env jwt_file_path w = Inr (jwt, w1)"
    and "dict_get vault_credentials ''address'' (PStr ''https://localhost:8200'') = Inr vault_address"
    and "dict_get vault_credentials ''secretPath'' (PStr ''/v1/secret/data/cred'') = Inr secret_path"
    and "dict_get vault_credentials ''authPath'' (PStr ''/v1/auth/kubernetes/login'') = Inr vault_auth"
    and "dict_get vault_credentials ''role'' (PStr ''demo'') = Inr role"
    and "vault_jwt_auth env jwt vault_address vault_auth role data_set_id w1 = Inr (PNone, w2)"
  shows "get_credentials_from_vault env vault_credentials data_set_id w = Inl missing_credentials"
  using assms by (simp add: get_credentials_from_vault_def get_raw_secret_from_vault_def)

text \<open>
  Claim C6 says that \<open>get_raw_secret_from_vault\<close> returns \<^verbatim>\<open>None\<close> for any answer to the
  login with a status other than 200, such as 403, and whenever the authentication
  response lacks \<^verbatim>\<open>auth.client_token\<close>; that it returns the \<^verbatim>\<open>data\<close> field of an answer 200
  to the read of the secret and \<^verbatim>\<open>None\<close> in every other case; and that a failed
  authentication makes \<open>get_credentials_from_vault\<close> raise the missing-credentials error.
  The source does so for a 403 whose body is JSON. It does not for these answers, where
  it raises before it reaches its \<^verbatim>\<open>return None\<close>:
  \<^item> a 403 to the login whose body is no JSON: the log record of the failure evaluates
    \<^verbatim>\<open>response.json()\<close>, which raises, and \<open>get_credentials_from_vault\<close> ends with that
    error instead of the missing-credentials error;
  \<^item> a 200 to the login with \<^verbatim>\<open>{"auth": null}\<close>, which lacks \<^verbatim>\<open>auth.client_token\<close>: the
    test \<^verbatim>\<open>"client_token" in vault_auth_response["auth"]\<close> raises \<^verbatim>\<open>TypeError\<close>;
  \<^item> a 500 to the read of the secret whose body is no JSON: the log record raises again;
  \<^item> a 200 to the read of the secret whose body is \<^verbatim>\<open>null\<close>: the test
    \<^verbatim>\<open>'data' in response_json\<close> raises \<^verbatim>\<open>TypeError\<close>.
\<close>

theorem get_raw_secret_from_vault_raises:
  "status_code auth_forbidden = 403
   \<and> get_raw_secret_from_vault (sample_env auth_forbidden secret_ok PNone) ''jwt''
         (PStr ''/v1/secret/s3'') (PStr ''http://vault:8200'')
         (PStr ''/v1/auth/kubernetes/login'') (PStr ''module'') (PStr ''samples/medical'') 0
       = Inr (PNone, 1)
   \<and> get_credentials_from_vault (sample_env auth_forbidden secret_ok PNone) sample_vault
         (PStr ''samples/medical'') 0 = Inl missing_credentials
   \<and> status_code auth_forbidden_page = 403
   \<and> vault_jwt_auth (sample_env auth_forbidden_page secret_ok PNone) ''jwt''
         (PStr ''http://vault:8200'') (PStr ''/v1/auth/kubernetes/login'') (PStr ''module'')
         (PStr ''samples/medical'') 0 = Inl (LibraryError ''JSONDecodeError'')
   \<and> get_raw_secret_from_vault (sample_env auth_forbidden_page secret_ok PNone) ''jwt''
         (PStr ''/v1/secret/s3'') (PStr ''http://vault:8200'')
         (PStr ''/v1/auth/kubernetes/login'') (PStr ''module'') (PStr ''samples/medical'') 0
       = Inl (LibraryError ''JSONDecodeError'')
   \<and> get_credentials_from_vault (sample_env auth_forbidden_page secret_ok PNone) sample_vault
         (PStr ''samples/medical'') 0 = Inl (LibraryError ''JSONDecodeError'')
   \<and> Inl (LibraryError ''JSONDecodeError'')
         \<noteq> (Inl missing_credentials :: py_error + ((pyval \<times> pyval) \<times> nat))
   \<and> json auth_null = Inr (PDict [(''auth'', PNone)])
   \<and> lacks_client_token (PDict [(''auth'', PNone)])
   \<and> get_raw_secret_from_vault (sample_env auth_null secret_ok PNone) ''jwt''
         (PStr ''/v1/secret/s3'') (PStr ''http://vault:8200'')
         (PStr ''/v1/auth/kubernetes/login'') (PStr ''module'') (PStr ''samples/medical'') 0
       = Inl TypeError
   \<and> get_raw_secret_from_vault (sample_env auth_ok secret_unavailable_page PNone) ''jwt''
         (PStr ''/v1/secret/s3'') (PStr ''http://vault:8200'')
         (PStr ''/v1/auth/kubernetes/login'') (PStr ''module'') (PStr ''samples/medical'') 0
       = Inl (LibraryError ''JSONDecodeError'')
   \<and> get_raw_secret_from_vault (sample_env auth_ok secret_null PNone) ''jwt''
         (PStr ''/v1/secret/s3'') (PStr ''http://vault:8200'')
         (PStr ''/v1/auth/kubernetes/login'') (PStr ''module'') (PStr ''samples/medical'') 0
       = Inl TypeError"
  by (simp add: get_credentials_from_vault_def get_raw_secret_from_vault_def vault_jwt_auth_def
        get_jwt_from_file_def sample_env_def sample_vault_def auth_forbidden_def
        auth_forbidden_page_def auth_null_def auth_ok_def secret_ok_def
        secret_unavailable_page_def secret_null_def lacks_client_token_def
        missing_credentials_def)


subsection \<open>Config loader\<close>

lemma on_ok_Inr_iff: "on_ok r f = Inr y \<longleftrightarrow> (\<exists>x. r = Inr x \<and> f x = Inr y)"
  by (cases r) simp_all

lemma getitem_str_field: "getitem x (PStr k) = Inr v \<Longrightarrow> field x k = Some v"
  by (cases x) (auto split: option.splits)

lemma getitem_dict_key:
  "getitem (PDict kvs) key = Inr v \<Longrightarrow> \<exists>k. key = PStr k \<and> map_of kvs k = Some v"
  by (cases key) (auto split: option.splits)

text \<open>
  Only the first element of a list can be both the item 0 of a value and itself a value
  with string keys: the item 0 of a string is a string.
\<close>

lemma getitem_first_object:
  assumes "getitem x (PInt 0) = Inr v" and "getitem v (PStr k) = Inr u"
  shows "\<exists>others. x = PList (v # others)"
proof (cases x)
  case (PList xs)
  with assms(1) show ?thesis by (cases xs) (simp_all add: seq_index_def)
next
  case (PStr s)
  with assms show ?thesis by (auto simp: seq_index_def on_ok_Inr_iff split: if_splits)
qed (use assms in simp_all)

text \<open>
  Claim C8. For every configuration entry that the loader turns into a descriptor, the
  \<^verbatim>\<open>transformations\<close> field decodes as base64 and then as JSON to an array, the
  transformation of the descriptor is the \<^verbatim>\<open>name\<close> field of the first element of that
  array, and the protected columns of the descriptor are the \<^verbatim>\<open>columns\<close> field of the
  object that the first element holds under that name.
\<close>

theorem conf_entry_policy:
  assumes "conf_entry env entry w = Inr ((name, d), w')"
  shows "entry_policy env entry = Some (transformation d, transformation_cols d)"
proof -
  from assms obtain encoded decoded json_text array first_element nested where
    steps: "getitem entry (PStr ''transformations'') = Inr encoded"
      "b64decode env encoded = Inr decoded"
      "decode_utf8 env decoded = Inr json_text"
      "json_loads env json_text = Inr array"
      "getitem array (PInt 0) = Inr first_element"
      "getitem first_element (PStr ''name'') = Inr (transformation d)"
      "getitem first_element (transformation d) = Inr nested"
      "getitem nested (PStr ''columns'') = Inr (transformation_cols d)"
    by (auto simp: conf_entry_def on_ok_Inr_iff)
  from getitem_first_object [OF steps(5,6)] obtain others where
    array: "array = PList (first_element # others)" by blast
  from steps(6) obtain kvs where first: "first_element = PDict kvs"
    by (cases first_element) simp_all
  from steps(7) first obtain policy_name where
    name: "transformation d = PStr policy_name" "map_of kvs policy_name = Some nested"
    by (auto dest: getitem_dict_key)
  show ?thesis
    using steps(2-4) getitem_str_field [OF steps(1)] getitem_str_field [OF steps(6)]
      getitem_str_field [OF steps(8)] array first name
    by (simp add: entry_policy_def)
qed

lemma sample_credentials:
  "get_credentials_from_vault (sample_env auth_ok secret_ok datasets) sample_vault ds w
     = Inr ((PStr ''AK'', PStr ''SK''), Suc (Suc w))"
  by (simp add: get_credentials_from_vault_def sample_vault_def get_jwt_from_file_def
        get_raw_secret_from_vault_def vault_jwt_auth_def sample_env_def auth_ok_def secret_ok_def)

lemma sample_decoders:
  "b64decode (sample_env a s datasets) (PStr redact_b64) = Inr redact_text"
  "b64decode (sample_env a s datasets) (PStr remove_b64) = Inr remove_text"
  "decode_utf8 (sample_env a s datasets) raw = Inr raw"
  "json_loads (sample_env a s datasets) redact_text = Inr redact_policy"
  "json_loads (sample_env a s datasets) remove_text = Inr remove_policy"
  by (simp_all add: sample_env_def redact_b64_def remove_b64_def redact_text_def remove_text_def)

lemma sample_medical:
  "conf_entry (sample_env auth_ok secret_ok datasets) medical_entry w
     = Inr ((''medical'', medical_descriptor), Suc (Suc w))"
  by (simp add: conf_entry_def medical_entry_def sample_credentials sample_decoders
        redact_policy_def medical_descriptor_def seq_index_def)

lemma sample_payroll:
  "conf_entry (sample_env auth_ok secret_ok datasets) payroll_entry w
     = Inr ((''payroll'', payroll_descriptor), Suc (Suc w))"
  by (simp add: conf_entry_def payroll_entry_def sample_credentials sample_decoders
        remove_policy_def payroll_descriptor_def seq_index_def)

theorem conf_entry_policy_witness:
  "conf_entry (sample_env auth_ok secret_ok PNone) medical_entry 0
     = Inr ((''medical'', medical_descriptor), 2)
   \<and> entry_policy (sample_env auth_ok secret_ok PNone) medical_entry
       = Some (PStr ''RedactAction'', PList [PStr ''ssn''])"
proof -
  have h: "conf_entry (sample_env auth_ok secret_ok PNone) medical_entry 0
             = Inr ((''medical'', medical_descriptor), Suc (Suc 0))"
    by (rule sample_medical)
  from conf_entry_policy [OF h]
  have "entry_policy (sample_env auth_ok secret_ok PNone) medical_entry
          = Some (PStr ''RedactAction'', PList [PStr ''ssn''])"
    by (simp add: medical_descriptor_def)
  with h show ?thesis by (simp add: numeral_2_eq_2)
qed

lemma map_of_dict_set: "map_of (dict_set k v kvs) k = Some v"
  by (induction kvs) auto

text \<open>
  After the inner loop has run over a list that is not empty, \<^verbatim>\<open>name\<close> is the name of
  the last entry and \<^verbatim>\<open>data_dict\<close> holds the descriptor of the last entry under it.
\<close>

lemma entries_loop_last:
  "entries_loop env es (n, dd, w) = Inr (n', dd', w') \<Longrightarrow> es \<noteq> [] \<Longrightarrow>
     \<exists>w0 w1 nm d. conf_entry env (last es) w0 = Inr ((nm, d), w1)
        \<and> n' = Some nm \<and> map_of dd' nm = Some d"
proof (induction es arbitrary: n dd w)
  case Nil
  then show ?case by simp
next
  case (Cons e es)
  from Cons.prems(1) obtain nm d w1 where
    e: "conf_entry env e w = Inr ((nm, d), w1)"
    and rest: "entries_loop env es (Some nm, dict_set nm d dd, w1) = Inr (n', dd', w')"
    by (auto split: sum.splits)
  show ?case
  proof (cases "es = []")
    case True
    with rest have "n' = Some nm" "dd' = dict_set nm d dd" by simp_all
    with e True show ?thesis by (auto simp: map_of_dict_set)
  next
    case False
    with Cons.IH [OF rest] show ?thesis by simp
  qed
qed

lemma conf_entries_Cons:
  "conf_entries ((key, val) # items) =
     (if sublist ''data'' key
      then (case py_iter val of Inl e \<Rightarrow> [] | Inr entries \<Rightarrow> entries) @ conf_entries items
      else conf_entries items)"
  by (simp add: conf_entries_def)

lemma items_loop_no_entries:
  "items_loop env items st = Inr st' \<Longrightarrow> conf_entries items = [] \<Longrightarrow> st' = st"
proof (induction items arbitrary: st)
  case Nil
  then show ?case by simp
next
  case (Cons item items)
  obtain key val where item: "item = (key, val)" by (cases item)
  show ?case
  proof (cases "sublist ''data'' key")
    case False
    with Cons item show ?thesis by (simp add: conf_entries_Cons)
  next
    case True
    with Cons.prems item obtain st1 where
      "py_iter val = Inr []" "entries_loop env [] st = Inr st1" "items_loop env items st1 = Inr st'"
      "conf_entries items = []"
      by (auto simp: conf_entries_Cons split: sum.splits)
    with Cons.IH [of st1] show ?thesis by simp
  qed
qed

lemma items_loop_last:
  "items_loop env items st = Inr (n', dd', w') \<Longrightarrow> conf_entries items \<noteq> [] \<Longrightarrow>
     \<exists>w0 w1 nm d. conf_entry env (last (conf_entries items)) w0 = Inr ((nm, d), w1)
        \<and> n' = Some nm \<and> map_of dd' nm = Some d"
proof (induction items arbitrary: st)
  case Nil
  then show ?case by (simp add: conf_entries_def)
next
  case (Cons item items)
  obtain key val where item: "item = (key, val)" by (cases item)
  show ?case
  proof (cases "sublist ''data'' key")
    case False
    with Cons item show ?thesis by (simp add: conf_entries_Cons)
  next
    case True
    with Cons.prems(1) item obtain es st1 where
      es: "py_iter val = Inr es" and loop: "entries_loop env es st = Inr st1"
      and rest: "items_loop env items st1 = Inr (n', dd', w')"
      by (auto split: sum.splits)
    have all: "conf_entries (item # items) = es @ conf_entries items"
      using True item es by (simp add: conf_entries_Cons)
    show ?thesis
    proof (cases "conf_entries items = []")
      case False
      with Cons.IH [OF rest] all show ?thesis by simp
    next
      case empty: True
      from items_loop_no_entries [OF rest empty] have st1: "st1 = (n', dd', w')" by simp
      from empty all Cons.prems(2) have "es \<noteq> []" by simp
      obtain n dd w where "st = (n, dd, w)" by (cases st)
      with loop st1 have "entries_loop env es (n, dd, w) = Inr (n', dd', w')" by simp
      from entries_loop_last [OF this \<open>es \<noteq> []\<close>] all empty show ?thesis by simp
    qed
  qed
qed

lemma items_loop_unbound:
  "items_loop env items (None, dd, w) = Inr (n', dd', w') \<Longrightarrow> conf_entries items = []
     \<Longrightarrow> n' = None"
  by (drule items_loop_no_entries) simp_all

text \<open>
  Claim C4. When the configuration has been read and parsed to a mapping and
  \<open>get_details_from_conf\<close> returns a descriptor, the mapping has entries under its keys
  that contain \<^verbatim>\<open>data\<close>, and the descriptor returned is the one built from the last of
  them in the order in which the loops reach them. With several entries the descriptors
  of the earlier ones are stored in \<^verbatim>\<open>data_dict\<close> only: the value returned is a single
  descriptor.
\<close>

theorem get_details_from_conf_last_entry:
  assumes "open_read env (PStr ''/etc/conf/conf.yaml'') w = (Inr stream, w1)"
    and "yaml_safe_load env stream = Inr (PDict items)"
    and "get_details_from_conf env data_dict w = Inr (d, data_dict', w')"
  shows "conf_entries items \<noteq> []
         \<and> (\<exists>w0 w1 name. conf_entry env (last (conf_entries items)) w0 = Inr ((name, d), w1))"
proof -
  from assms obtain n where
    loop: "items_loop env items (None, data_dict, w1) = Inr (n, data_dict', w')"
    and ret: "(case n of None \<Rightarrow> Inl UnboundLocalError
               | Some k \<Rightarrow> (case map_of data_dict' k of None \<Rightarrow> Inl KeyError
                            | Some d' \<Rightarrow> Inr (d', data_dict', w')))
              = Inr (d, data_dict', w')"
    by (auto simp: get_details_from_conf_def on_ok_Inr_iff split: option.splits)
  have nonempty: "conf_entries items \<noteq> []"
  proof
    assume "conf_entries items = []"
    with loop have "n = None" by (rule items_loop_unbound)
    with ret show False by simp
  qed
  from items_loop_last [OF loop nonempty] obtain w0 w2 nm d' where
    "conf_entry env (last (conf_entries items)) w0 = Inr ((nm, d'), w2)"
    "n = Some nm" "map_of data_dict' nm = Some d'"
    by blast
  with ret nonempty show ?thesis by auto
qed

lemma sample_keys: "\<not> sublist ''data'' ''app-uuid''" "sublist ''data'' ''data''"
  by (simp_all add: sublist_code)

lemma sample_conf_entries:
  "conf_entries (sample_items (PList entries)) = entries"
  by (simp add: conf_entries_def sample_items_def sample_keys)

lemma sample_conf:
  "open_read (sample_env a s datasets) (PStr ''/etc/conf/conf.yaml'') w = (Inr ''conf'', w)"
  "yaml_safe_load (sample_env a s datasets) ''conf'' = Inr (PDict (sample_items datasets))"
  by (simp_all add: sample_env_def)

lemma sample_details:
  "get_details_from_conf (sample_env auth_ok secret_ok (PList [medical_entry, payroll_entry])) [] 0
     = Inr (payroll_descriptor,
            [(''medical'', medical_descriptor), (''payroll'', payroll_descriptor)], 4)"
proof -
  have "items_loop (sample_env auth_ok secret_ok (PList [medical_entry, payroll_entry]))
          (sample_items (PList [medical_entry, payroll_entry])) (None, [], 0)
        = Inr (Some ''payroll'',
               [(''medical'', medical_descriptor), (''payroll'', payroll_descriptor)], 4)"
    by (simp add: sample_items_def sample_keys sample_medical sample_payroll)
  then show ?thesis
    by (simp add: get_details_from_conf_def sample_conf)
qed

theorem get_details_from_conf_last_entry_witness:
  "get_details_from_conf (sample_env auth_ok secret_ok (PList [medical_entry, payroll_entry])) [] 0
     = Inr (payroll_descriptor,
            [(''medical'', medical_descriptor), (''payroll'', payroll_descriptor)], 4)
   \<and> conf_entries (sample_items (PList [medical_entry, payroll_entry]))
       = [medical_entry, payroll_entry]
   \<and> (\<exists>w0 w1 name.
         conf_entry (sample_env auth_ok secret_ok (PList [medical_entry, payroll_entry]))
           payroll_entry w0 = Inr ((name, payroll_descriptor), w1))
   \<and> payroll_descriptor \<noteq> medical_descriptor"
proof -
  have different: "payroll_descriptor \<noteq> medical_descriptor"
    by (simp add: payroll_descriptor_def medical_descriptor_def)
  show ?thesis
    using get_details_from_conf_last_entry [OF sample_conf sample_details]
      sample_details sample_conf_entries [of "[medical_entry, payroll_entry]"] different
    by simp
qed

lemma items_loop_empty_lists:
  "\<forall>(key, val) \<in> set items. sublist ''data'' key \<longrightarrow> val = PList [] \<Longrightarrow>
     items_loop env items st = Inr st"
  by (induction items arbitrary: st) auto

text \<open>
  Claim C9. When the parsed configuration is a mapping that has no key containing
  \<^verbatim>\<open>data\<close>, or whose keys containing \<^verbatim>\<open>data\<close> all map to the empty list, the loops bind
  nothing and \<open>get_details_from_conf\<close> ends with the error of reading the unbound local
  variable \<^verbatim>\<open>name\<close>; it returns neither an empty mapping nor a default.
\<close>

theorem get_details_from_conf_unbound:
  assumes "open_read env (PStr ''/etc/conf/conf.yaml'') w = (Inr stream, w1)"
    and "yaml_safe_load env stream = Inr (PDict items)"
    and "(\<forall>(key, val) \<in> set items. \<not> sublist ''data'' key)
         \<or> (\<forall>(key, val) \<in> set items. sublist ''data'' key \<longrightarrow> val = PList [])"
  shows "get_details_from_conf env data_dict w = Inl UnboundLocalError"
proof -
  from assms(3) have "\<forall>(key, val) \<in> set items. sublist ''data'' key \<longrightarrow> val = PList []"
    by auto
  then have "items_loop env items (None, data_dict, w1) = Inr (None, data_dict, w1)"
    by (rule items_loop_empty_lists)
  with assms(1,2) show ?thesis
    by (simp add: get_details_from_conf_def)
qed

theorem get_details_from_conf_unbound_witness:
  "sample_items (PList []) = [(''app-uuid'', PStr ''123''), (''data'', PList [])]
   \<and> get_details_from_conf (sample_env auth_ok secret_ok (PList [])) [] 0
       = Inl UnboundLocalError
   \<and> get_details_from_conf
         ((sample_env auth_ok secret_ok PNone)
            \<lparr>yaml_safe_load := \<lambda>stream. Inr (PDict [(''app-uuid'', PStr ''123'')])\<rparr>) [] 0
       = Inl UnboundLocalError"
proof -
  have empty:
    "(\<forall>(key, val) \<in> set (sample_items (PList [])). \<not> sublist ''data'' key)
     \<or> (\<forall>(key, val) \<in> set (sample_items (PList [])).
           sublist ''data'' key \<longrightarrow> val = PList [])"
    by (simp add: sample_items_def sample_keys)
  have no_key:
    "(\<forall>(key, val) \<in> set [(''app-uuid'', PStr ''123'')]. \<not> sublist ''data'' key)
     \<or> (\<forall>(key, val) \<in> set [(''app-uuid'', PStr ''123'')].
           sublist ''data'' key \<longrightarrow> val = PList [])"
    by (simp add: sample_keys)
  have conf:
    "open_read ((sample_env auth_ok secret_ok PNone)
        \<lparr>yaml_safe_load := \<lambda>stream. Inr (PDict [(''app-uuid'', PStr ''123'')])\<rparr>)
        (PStr ''/etc/conf/conf.yaml'') 0 = (Inr ''conf'', 0)"
    "yaml_safe_load ((sample_env auth_ok secret_ok PNone)
        \<lparr>yaml_safe_load := \<lambda>stream. Inr (PDict [(''app-uuid'', PStr ''123'')])\<rparr>) ''conf''
       = Inr (PDict [(''app-uuid'', PStr ''123'')])"
    by (simp_all add: sample_env_def)
  show ?thesis
    using get_details_from_conf_unbound [OF sample_conf empty, where data_dict = "[]"]
      get_details_from_conf_unbound [OF conf no_key, where data_dict = "[]"]
    by (simp add: sample_items_def sample_keys)
qed

end
